theory Spec2Isabelle
  imports Complex_Main
begin

section \<open>Data model\<close>

text \<open>
  A JavaScript string is a sequence of UTF-16 code units; a code unit is modelled by its
  number.  \<open>js\<close> turns an ASCII literal into such a string.
\<close>

type_synonym jsstring = "nat list"

definition js :: "string \<Rightarrow> jsstring" where
  "js s = map of_char s"

text \<open>
  \<open>StoredToken\<close> of \<open>types/reddit\<close>, as the object literals of \<open>oauth.ts\<close> build it.
  \<open>expiresAt\<close> is an instant in epoch milliseconds; instants and lifetimes are modelled
  as integers (\<open>Date.now()\<close> is integral, and JavaScript arithmetic on integers below
  \<open>2 ^ 53\<close> is exact).
\<close>

record StoredToken =
  accessToken :: jsstring
  refreshToken :: jsstring
  expiresAt :: int
  scope :: jsstring

text \<open>
  Modelled from the spec: \<open>RedditTokenResponseSchema\<close> (\<open>types/reddit.ts\<close> is not among
  the sources).  Section 6 gives the shape of a token endpoint response as
  \<open>{access_token, token_type, expires_in, refresh_token?, scope}\<close>.
\<close>

record TokenResponse =
  access_token :: jsstring
  token_type :: jsstring
  expires_in :: int
  refresh_token :: "jsstring option"
  resp_scope :: jsstring

record OAuthConfig =
  clientId :: jsstring
  clientSecret :: jsstring
  redirectUri :: jsstring

text \<open>
  The errors the code raises.  \<open>TokenEndpointError\<close> stands for everything
  \<open>client.post\<close> and \<open>RedditTokenResponseSchema.parse\<close> can throw (network failure,
  timeout, non-success status, response of the wrong shape); \<open>NoRefreshToken\<close> for
  \<open>Error('No refresh token received. ...')\<close>; \<open>OAuthError e\<close> for
  \<open>Error(`OAuth error: ${e}`)\<close>; \<open>InvalidCallbackParameters\<close> for
  \<open>Error('Invalid callback parameters')\<close>; \<open>AuthTimeout\<close> for
  \<open>Error('Authentication timeout after 5 minutes')\<close>; \<open>StorageError\<close> for a rejected
  \<open>fs.writeFile\<close>.
\<close>

datatype error =
    TokenEndpointError
  | NoRefreshToken
  | OAuthError jsstring
  | InvalidCallbackParameters
  | AuthTimeout
  | StorageError

datatype grant =
    AuthorizationCode jsstring jsstring
  | RefreshGrant jsstring

datatype log_msg =
    FoundExistingValidToken
  | TokenExpiredRefreshing
  | TokenRefreshedSuccessfully
  | RefreshFailedStartingNewFlow
  | ExchangingCode
  | AuthorizationSuccessful
  | TokenSavedTo
  | TokenExchangeFailed error
  | FailedToPersistRefreshedToken error

datatype page = NotFoundText | ErrorPage error | SuccessPage

datatype event =
    HttpPost grant
  | Listen nat
  | ShowUrl jsstring
  | OpenBrowser jsstring
  | Respond nat page
  | CloseServer
  | WriteFile StoredToken
  | Log log_msg

record CallbackRequest =
  pathname :: jsstring
  searchParams :: "(jsstring \<times> jsstring) list"

text \<open>
  Everything outside the process, passed explicitly: the clock read by \<open>Date.now()\<close>, the
  replies the token endpoint will give (each with the milliseconds the caller waits for
  it), the token file as \<open>authenticate\<close> reads it at its declared type
  \<open>StoredToken | null\<close>, whether the file can be written, the requests that will reach
  the callback listener (each with the milliseconds since the previous event), the value
  \<open>Math.random().toString(36).substring(2, 15)\<close> will give, and the effects so far.
\<close>

record world =
  clock :: int
  net :: "(nat \<times> (error + TokenResponse)) list"
  stored :: "StoredToken option"
  disk_writable :: bool
  inbound :: "(nat \<times> CallbackRequest) list"
  rand :: jsstring
  trace :: "event list"

definition emit :: "event list \<Rightarrow> world \<Rightarrow> world" where
  "emit es w = w\<lparr>trace := trace w @ es\<rparr>"

text \<open>JavaScript truthiness of a value that is a string, \<open>null\<close> or \<open>undefined\<close>.\<close>

definition truthy :: "jsstring option \<Rightarrow> bool" where
  "truthy v = (case v of None \<Rightarrow> False | Some s \<Rightarrow> s \<noteq> [])"

text \<open>The string such a value is, where the code has tested that it is truthy.\<close>

definition str :: "jsstring option \<Rightarrow> jsstring" where
  "str v = (case v of None \<Rightarrow> [] | Some s \<Rightarrow> s)"

section \<open>RedditOAuth (oauth.ts)\<close>

text \<open>
  \<open>this.client.post(this.tokenUrl, params)\<close> followed by
  \<open>RedditTokenResponseSchema.parse\<close>: the request is recorded, the next scripted reply is
  consumed and the clock advances by the time waited.  The client is created with
  \<open>timeout: 30000\<close>, so an endpoint that never answers is an error after 30 seconds.
\<close>

definition post :: "grant \<Rightarrow> world \<Rightarrow> (error + TokenResponse) \<times> world" where
  "post g w =
     (case net w of
        [] \<Rightarrow> (Inl TokenEndpointError,
               w\<lparr>clock := clock w + 30000, trace := trace w @ [HttpPost g]\<rparr>)
      | (d, r) # rest \<Rightarrow>
          (r, w\<lparr>clock := clock w + int d, net := rest, trace := trace w @ [HttpPost g]\<rparr>))"

definition exchangeCodeForToken ::
  "OAuthConfig \<Rightarrow> jsstring \<Rightarrow> world \<Rightarrow> (error + StoredToken) \<times> world" where
  "exchangeCodeForToken cfg code w =
     (case post (AuthorizationCode code (redirectUri cfg)) w of
        (Inl e, w') \<Rightarrow> (Inl e, w')
      | (Inr data, w') \<Rightarrow>
          (if \<not> truthy (refresh_token data) then (Inl NoRefreshToken, w')
           else (Inr \<lparr>accessToken = access_token data,
                      refreshToken = str (refresh_token data),
                      expiresAt = clock w' + expires_in data * 1000,
                      scope = resp_scope data\<rparr>, w')))"

text \<open>The object literal \<open>refreshAccessToken\<close> returns, from the reply and \<open>Date.now()\<close>.\<close>

definition refreshedToken :: "jsstring \<Rightarrow> int \<Rightarrow> TokenResponse \<Rightarrow> StoredToken" where
  "refreshedToken rt now data =
     \<lparr>accessToken = access_token data,
      refreshToken = (if truthy (refresh_token data) then str (refresh_token data) else rt),
      expiresAt = now + expires_in data * 1000,
      scope = resp_scope data\<rparr>"

definition refreshAccessToken ::
  "jsstring \<Rightarrow> world \<Rightarrow> (error + StoredToken) \<times> world" where
  "refreshAccessToken rt w =
     (case post (RefreshGrant rt) w of
        (Inl e, w') \<Rightarrow> (Inl e, w')
      | (Inr data, w') \<Rightarrow> (Inr (refreshedToken rt (clock w') data), w'))"

section \<open>TokenManager (oauth.ts)\<close>

record TokenManager =
  token :: StoredToken
  onTokenUpdate :: "(StoredToken \<Rightarrow> world \<Rightarrow> world) option"

definition refreshBuffer :: int where
  "refreshBuffer = 5 * 60 * 1000"

definition refresh :: "TokenManager \<Rightarrow> world \<Rightarrow> (error + unit) \<times> TokenManager \<times> world" where
  "refresh tm w =
     (case refreshAccessToken (refreshToken (token tm)) w of
        (Inl e, w') \<Rightarrow> (Inl e, tm, w')
      | (Inr t, w') \<Rightarrow>
          (Inr (), tm\<lparr>token := t\<rparr>,
           (case onTokenUpdate tm of None \<Rightarrow> w' | Some listener \<Rightarrow> listener t w')))"

definition getToken :: "TokenManager \<Rightarrow> world \<Rightarrow> (error + jsstring) \<times> TokenManager \<times> world" where
  "getToken tm w =
     (let now = clock w in
      if expiresAt (token tm) - now < refreshBuffer then
        (case refresh tm w of
           (Inl e, tm', w') \<Rightarrow> (Inl e, tm', w')
         | (Inr u, tm', w') \<Rightarrow> (Inr (accessToken (token tm')), tm', w'))
      else (Inr (accessToken (token tm)), tm, w))"

section \<open>TokenManager under concurrent callers\<close>

text \<open>
  \<open>getToken\<close> is an \<open>async\<close> function: it runs without interruption up to the
  \<open>await\<close> on \<open>client.post\<close> and, when the reply arrives, without interruption to its
  return.  Callers interleave at that point only.  \<open>CallGetToken\<close> is the part of a call
  before the \<open>await\<close> (the test of \<open>expiresAt\<close> and the sending of the request, which
  carries the refresh token held at that moment), \<open>Deliver i r\<close> the part after it for the
  \<open>i\<close>-th request in flight, \<open>Elapse d\<close> the passing of \<open>d\<close> milliseconds.  The manager
  has no field recording a renewal in progress.
\<close>

record async_state =
  manager :: TokenManager
  env :: world
  in_flight :: "jsstring list"
  completed :: "(error + jsstring) list"

datatype async_event =
    CallGetToken
  | Deliver nat "error + TokenResponse"
  | Elapse nat

fun async_step :: "async_state \<Rightarrow> async_event \<Rightarrow> async_state" where
  "async_step s CallGetToken =
     (let now = clock (env s); rt = refreshToken (token (manager s)) in
      if expiresAt (token (manager s)) - now < refreshBuffer then
        s\<lparr>env := emit [HttpPost (RefreshGrant rt)] (env s),
          in_flight := in_flight s @ [rt]\<rparr>
      else s\<lparr>completed := completed s @ [Inr (accessToken (token (manager s)))]\<rparr>)"
| "async_step s (Deliver i r) =
     (if i < length (in_flight s) then
        (let rt = in_flight s ! i;
             s' = s\<lparr>in_flight := take i (in_flight s) @ drop (Suc i) (in_flight s)\<rparr>
         in case r of
              Inl e \<Rightarrow> s'\<lparr>completed := completed s @ [Inl e]\<rparr>
            | Inr data \<Rightarrow>
                (let t = refreshedToken rt (clock (env s)) data in
                 s'\<lparr>manager := (manager s)\<lparr>token := t\<rparr>,
                    env := (case onTokenUpdate (manager s) of
                              None \<Rightarrow> env s | Some listener \<Rightarrow> listener t (env s)),
                    completed := completed s @ [Inr (accessToken t)]\<rparr>))
      else s)"
| "async_step s (Elapse d) = s\<lparr>env := (env s)\<lparr>clock := clock (env s) + int d\<rparr>\<rparr>"

definition async_run :: "async_state \<Rightarrow> async_event list \<Rightarrow> async_state" where
  "async_run s evs = foldl async_step s evs"

section \<open>OAuthServer (oauth-server.ts)\<close>

subsection \<open>The token file at its declared type\<close>

text \<open>
  \<open>authenticate\<close> and the callback handler use \<open>loadToken\<close> and \<open>saveToken\<close> at their
  declared types, \<open>Promise<StoredToken | null>\<close> and \<open>Promise<void>\<close>: a load gives the
  stored credential or \<open>null\<close>, a save replaces it or rejects.
\<close>

definition saveToken_typed :: "StoredToken \<Rightarrow> world \<Rightarrow> (error + unit) \<times> world" where
  "saveToken_typed tok w =
     (if disk_writable w
      then (Inr (), w\<lparr>stored := Some tok, trace := trace w @ [WriteFile tok]\<rparr>)
      else (Inl StorageError, w))"

definition loadToken_typed :: "world \<Rightarrow> StoredToken option" where
  "loadToken_typed w = stored w"

subsection \<open>The callback listener\<close>

definition searchParams_get :: "CallbackRequest \<Rightarrow> jsstring \<Rightarrow> jsstring option" where
  "searchParams_get req k = map_of (searchParams req) k"

text \<open>
  The request handler of \<open>startOAuthFlow\<close>.  The first component of the result is what the
  handler does to the promise: \<open>None\<close> when it calls neither \<open>resolve\<close> nor \<open>reject\<close>,
  \<open>Some (Inr token)\<close> for \<open>resolve(token)\<close>, \<open>Some (Inl e)\<close> for \<open>reject(e)\<close>.
\<close>

definition handleRequest ::
  "OAuthConfig \<Rightarrow> jsstring \<Rightarrow> CallbackRequest \<Rightarrow> world \<Rightarrow> (error + StoredToken) option \<times> world" where
  "handleRequest cfg state req w =
     (if pathname req \<noteq> js ''/callback'' then (None, emit [Respond 404 NotFoundText] w)
      else
        (let error = searchParams_get req (js ''error'') in
         if truthy error then
           (Some (Inl (OAuthError (str error))),
            emit [Respond 400 (ErrorPage (OAuthError (str error))), CloseServer] w)
         else
           (let code = searchParams_get req (js ''code'');
                returnedState = searchParams_get req (js ''state'')
            in if \<not> truthy code \<or> returnedState \<noteq> Some state then
                 (Some (Inl InvalidCallbackParameters),
                  emit [Respond 400 (ErrorPage InvalidCallbackParameters), CloseServer] w)
               else
                 (case exchangeCodeForToken cfg (str code) (emit [Log ExchangingCode] w) of
                    (Inl err, w1) \<Rightarrow>
                      (Some (Inl err),
                       emit [Log (TokenExchangeFailed err), Respond 500 (ErrorPage err),
                             CloseServer] w1)
                  | (Inr tok, w1) \<Rightarrow>
                      (case saveToken_typed tok w1 of
                         (Inl err, w2) \<Rightarrow>
                           (Some (Inl err),
                            emit [Log (TokenExchangeFailed err), Respond 500 (ErrorPage err),
                                  CloseServer] w2)
                       | (Inr u, w2) \<Rightarrow>
                           (Some (Inr tok),
                            emit [Log AuthorizationSuccessful, Log TokenSavedTo,
                                  Respond 200 SuccessPage, CloseServer] w2))))))"

definition flowTimeout :: int where
  "flowTimeout = 5 * 60 * 1000"

text \<open>
  The listener serves the inbound requests in order until a handler settles the promise.
  The timer set by \<open>setTimeout\<close> fires at \<open>deadline\<close>: it closes the server and rejects.
  A promise settles once, so a handler that finishes its \<open>await\<close>s at or after the
  deadline finds the promise already rejected by the timer.  Each handler is run to its
  end before the next request is looked at.
\<close>

fun serve ::
  "OAuthConfig \<Rightarrow> jsstring \<Rightarrow> int \<Rightarrow> (nat \<times> CallbackRequest) list \<Rightarrow> world
     \<Rightarrow> (error + StoredToken) \<times> world" where
  "serve cfg state deadline [] w =
     (Inl AuthTimeout, emit [CloseServer] (w\<lparr>clock := max (clock w) deadline\<rparr>))"
| "serve cfg state deadline ((d, req) # reqs) w =
     (if deadline \<le> clock w + int d then
        (Inl AuthTimeout, emit [CloseServer] (w\<lparr>clock := max (clock w) deadline\<rparr>))
      else
        (case handleRequest cfg state req (w\<lparr>clock := clock w + int d\<rparr>) of
           (None, w') \<Rightarrow> serve cfg state deadline reqs w'
         | (Some out, w') \<Rightarrow> ((if deadline \<le> clock w' then Inl AuthTimeout else out), w')))"

definition startOAuthFlow ::
  "OAuthConfig \<Rightarrow> nat \<Rightarrow> world \<Rightarrow> (error + StoredToken) \<times> world" where
  "startOAuthFlow cfg port w =
     (let state = rand w in
      serve cfg state (clock w + flowTimeout) (inbound w)
        (emit [Listen port, ShowUrl state, OpenBrowser state] w))"

subsection \<open>authenticate and getTokenManager\<close>

definition authenticate ::
  "OAuthConfig \<Rightarrow> nat \<Rightarrow> world \<Rightarrow> (error + StoredToken) \<times> world" where
  "authenticate cfg port w =
     (case loadToken_typed w of
        Some existing \<Rightarrow>
          (if expiresAt existing > clock w then
             (Inr existing, emit [Log FoundExistingValidToken] w)
           else
             (case refreshAccessToken (refreshToken existing)
                     (emit [Log TokenExpiredRefreshing] w) of
                (Inr refreshed, w1) \<Rightarrow>
                  (case saveToken_typed refreshed w1 of
                     (Inr u, w2) \<Rightarrow> (Inr refreshed, emit [Log TokenRefreshedSuccessfully] w2)
                   | (Inl err, w2) \<Rightarrow>
                       startOAuthFlow cfg port (emit [Log RefreshFailedStartingNewFlow] w2))
              | (Inl err, w1) \<Rightarrow>
                  startOAuthFlow cfg port (emit [Log RefreshFailedStartingNewFlow] w1)))
      | None \<Rightarrow> startOAuthFlow cfg port w)"

text \<open>
  The listener \<open>getTokenManager\<close> registers:
  \<open>(updated) => { this.saveToken(updated).catch((err) => console.error(...)) }\<close>.
  The write is started and not awaited; its outcome is recorded here at once.
\<close>

definition persistListener :: "StoredToken \<Rightarrow> world \<Rightarrow> world" where
  "persistListener updated w =
     (case saveToken_typed updated w of
        (Inr u, w') \<Rightarrow> w'
      | (Inl err, w') \<Rightarrow> emit [Log (FailedToPersistRefreshedToken err)] w')"

definition getTokenManager ::
  "OAuthConfig \<Rightarrow> nat \<Rightarrow> world \<Rightarrow> (error + TokenManager) \<times> world" where
  "getTokenManager cfg port w =
     (case authenticate cfg port w of
        (Inl e, w') \<Rightarrow> (Inl e, w')
      | (Inr tok, w') \<Rightarrow> (Inr \<lparr>token = tok, onTokenUpdate = Some persistListener\<rparr>, w'))"

section \<open>JSON text (JSON.stringify and JSON.parse of the runtime)\<close>

text \<open>
  Code units used below: 9 tab, 10 line feed, 13 carriage return, 32 space, 34 double
  quote, 43 plus, 44 comma, 45 minus, 46 full stop, 47 slash, 48 to 57 the digits, 58
  colon, 69 and 101 the letters E and e, 91 and 93 square brackets, 92 backslash, 123 and
  125 braces; 0xD800 to 0xDBFF are the high and 0xDC00 to 0xDFFF the low surrogates.

  A value \<open>JSON.parse\<close> can return: a number is kept as the exact value of its literal
  (JavaScript rounds it to a double); the members of an object are kept in the order of
  the text.
\<close>

datatype json =
    JNull
  | JBool bool
  | JNumber rat
  | JString jsstring
  | JArray "json list"
  | JObject "(jsstring \<times> json) list"

definition is_high_surrogate :: "nat \<Rightarrow> bool" where
  "is_high_surrogate c = (0xD800 \<le> c \<and> c \<le> 0xDBFF)"

definition is_low_surrogate :: "nat \<Rightarrow> bool" where
  "is_low_surrogate c = (0xDC00 \<le> c \<and> c \<le> 0xDFFF)"

definition is_surrogate :: "nat \<Rightarrow> bool" where
  "is_surrogate c = (0xD800 \<le> c \<and> c \<le> 0xDFFF)"

subsection \<open>JSON.stringify(token, null, 2)\<close>

text \<open>
  \<open>QuoteJSONString\<close> of ECMAScript: the string between double quotes.  The code units
  8, 9, 10, 12, 13, 34 and 92 become a backslash followed by \<open>b\<close>, \<open>t\<close>, \<open>n\<close>, \<open>f\<close>, \<open>r\<close>,
  a double quote and a backslash; every other code unit below 32, and every surrogate
  that is not part of a pair, becomes a backslash, \<open>u\<close> and four lower-case
  hexadecimal digits; every other code unit stands for itself.
\<close>

definition hex_digit :: "nat \<Rightarrow> nat" where
  "hex_digit v = (if v < 10 then 48 + v else 87 + v)"

definition unicode_escape :: "nat \<Rightarrow> jsstring" where
  "unicode_escape c =
     [92, 117, hex_digit (c div 4096 mod 16), hex_digit (c div 256 mod 16),
      hex_digit (c div 16 mod 16), hex_digit (c mod 16)]"

definition quote_unit :: "nat \<Rightarrow> jsstring" where
  "quote_unit c =
     (if c = 8 then [92, 98]
      else if c = 9 then [92, 116]
      else if c = 10 then [92, 110]
      else if c = 12 then [92, 102]
      else if c = 13 then [92, 114]
      else if c = 34 then [92, 34]
      else if c = 92 then [92, 92]
      else if c < 32 \<or> is_surrogate c then unicode_escape c
      else [c])"

fun quote_chars :: "jsstring \<Rightarrow> jsstring" where
  "quote_chars [] = []"
| "quote_chars [c] = quote_unit c"
| "quote_chars (c # d # cs) =
     (if is_high_surrogate c \<and> is_low_surrogate d then c # d # quote_chars cs
      else quote_unit c @ quote_chars (d # cs))"

definition QuoteJSONString :: "jsstring \<Rightarrow> jsstring" where
  "QuoteJSONString s = 34 # quote_chars s @ [34]"

text \<open>
  \<open>Number::toString\<close> on an integer of magnitude below \<open>10 ^ 21\<close>: the decimal digits, after
  a minus sign for a negative number.  (From \<open>10 ^ 21\<close> on JavaScript switches to
  exponent notation, which is not modelled.)
\<close>

function digits :: "nat \<Rightarrow> jsstring" where
  "digits n = (if n < 10 then [48 + n] else digits (n div 10) @ [48 + n mod 10])"
  by pat_completeness auto
termination
  by (relation "measure id") auto

definition Number_toString :: "int \<Rightarrow> jsstring" where
  "Number_toString n = (if n < 0 then 45 # digits (nat (- n)) else digits (nat n))"

text \<open>
  \<open>JSON.stringify(token, null, 2)\<close> on the object literal of \<open>oauth.ts\<close>: the four own
  properties in the order the literal lists them, each on a line of its own, indented by
  two spaces, with a colon and a space between key and value.
\<close>

definition object_member :: "string \<Rightarrow> jsstring \<Rightarrow> jsstring" where
  "object_member k v = [32, 32] @ QuoteJSONString (js k) @ [58, 32] @ v"

definition JSON_stringify :: "StoredToken \<Rightarrow> jsstring" where
  "JSON_stringify tok =
     [123, 10] @ object_member ''accessToken'' (QuoteJSONString (accessToken tok)) @
     [44, 10] @ object_member ''refreshToken'' (QuoteJSONString (refreshToken tok)) @
     [44, 10] @ object_member ''expiresAt'' (Number_toString (expiresAt tok)) @
     [44, 10] @ object_member ''scope'' (QuoteJSONString (scope tok)) @
     [10, 125]"

subsection \<open>JSON.parse\<close>

text \<open>
  The JSON grammar of ECMA-404, which \<open>JSON.parse\<close> accepts: white space is space, tab,
  line feed and carriage return; a string may not contain a raw code unit below 32, and
  after a backslash come a double quote, a backslash, a slash, one of \<open>b f n r t\<close>, or
  \<open>u\<close> with four hexadecimal digits of either case; a number is an optional minus sign,
  an integer part without a leading zero, an optional fraction and an optional exponent.
  Each parser returns what it read and the text after it, or \<open>None\<close> where \<open>JSON.parse\<close>
  throws a \<open>SyntaxError\<close>.
\<close>

definition is_ws :: "nat \<Rightarrow> bool" where
  "is_ws c = (c = 32 \<or> c = 9 \<or> c = 10 \<or> c = 13)"

definition skip_ws :: "jsstring \<Rightarrow> jsstring" where
  "skip_ws cs = dropWhile is_ws cs"

definition is_digit :: "nat \<Rightarrow> bool" where
  "is_digit c = (48 \<le> c \<and> c \<le> 57)"

definition hex_val :: "nat \<Rightarrow> nat option" where
  "hex_val c =
     (if 48 \<le> c \<and> c \<le> 57 then Some (c - 48)
      else if 97 \<le> c \<and> c \<le> 102 then Some (c - 87)
      else if 65 \<le> c \<and> c \<le> 70 then Some (c - 55)
      else None)"

definition hex4 :: "nat \<Rightarrow> nat \<Rightarrow> nat \<Rightarrow> nat \<Rightarrow> nat option" where
  "hex4 a b c d =
     (case (hex_val a, hex_val b, hex_val c, hex_val d) of
        (Some x, Some y, Some z, Some w) \<Rightarrow> Some (((x * 16 + y) * 16 + z) * 16 + w)
      | _ \<Rightarrow> None)"

definition unescape :: "nat \<Rightarrow> nat option" where
  "unescape e =
     (if e = 34 then Some 34
      else if e = 92 then Some 92
      else if e = 47 then Some 47
      else if e = 98 then Some 8
      else if e = 102 then Some 12
      else if e = 110 then Some 10
      else if e = 114 then Some 13
      else if e = 116 then Some 9
      else None)"

text \<open>The characters of a string, after the opening quote and up to the closing one.\<close>

definition prepend :: "nat \<Rightarrow> (jsstring \<times> jsstring) option \<Rightarrow> (jsstring \<times> jsstring) option" where
  "prepend c r = (case r of None \<Rightarrow> None | Some (s, rest) \<Rightarrow> Some (c # s, rest))"

fun parse_chars :: "jsstring \<Rightarrow> (jsstring \<times> jsstring) option" where
  "parse_chars [] = None"
| "parse_chars (c # cs) =
     (if c = 34 then Some ([], cs)
      else if c = 92 then
        (case cs of
           [] \<Rightarrow> None
         | e # es \<Rightarrow>
             if e = 117 then
               (case es of
                  h1 # h2 # h3 # h4 # rest \<Rightarrow>
                    (case hex4 h1 h2 h3 h4 of
                       None \<Rightarrow> None
                     | Some u \<Rightarrow> prepend u (parse_chars rest))
                | _ \<Rightarrow> None)
             else
               (case unescape e of
                  None \<Rightarrow> None
                | Some u \<Rightarrow> prepend u (parse_chars es)))
      else if c < 32 then None
      else prepend c (parse_chars cs))"

definition digits_val :: "jsstring \<Rightarrow> nat" where
  "digits_val ds = foldl (\<lambda>a d. 10 * a + (d - 48)) 0 ds"

definition scale10 :: "rat \<Rightarrow> int \<Rightarrow> rat" where
  "scale10 m e = (if 0 \<le> e then m * 10 ^ nat e else m / 10 ^ nat (- e))"

definition parse_exponent :: "jsstring \<Rightarrow> (int \<times> jsstring) option" where
  "parse_exponent cs =
     (case cs of
        [] \<Rightarrow> Some (0, cs)
      | c # r \<Rightarrow>
          if c = 101 \<or> c = 69 then
            (let (neg, r1) = (case r of
                                [] \<Rightarrow> (False, r)
                              | s # r' \<Rightarrow> if s = 45 then (True, r')
                                          else if s = 43 then (False, r') else (False, r));
                 ds = takeWhile is_digit r1
             in if ds = [] then None
                else Some ((if neg then - int (digits_val ds) else int (digits_val ds)),
                           dropWhile is_digit r1))
          else Some (0, cs))"

definition parse_fraction :: "jsstring \<Rightarrow> (rat \<times> jsstring) option" where
  "parse_fraction cs =
     (case cs of
        [] \<Rightarrow> Some (0, cs)
      | c # r \<Rightarrow>
          if c = 46 then
            (let ds = takeWhile is_digit r
             in if ds = [] then None
                else Some (of_nat (digits_val ds) / 10 ^ length ds, dropWhile is_digit r))
          else Some (0, cs))"

definition parse_number :: "jsstring \<Rightarrow> (rat \<times> jsstring) option" where
  "parse_number cs =
     (let (neg, cs1) = (case cs of [] \<Rightarrow> (False, cs)
                        | c # r \<Rightarrow> if c = 45 then (True, r) else (False, cs));
          ds = takeWhile is_digit cs1
      in if ds = [] \<or> (1 < length ds \<and> hd ds = 48) then None
         else
           (case parse_fraction (dropWhile is_digit cs1) of
              None \<Rightarrow> None
            | Some (f, cs2) \<Rightarrow>
                (case parse_exponent cs2 of
                   None \<Rightarrow> None
                 | Some (e, cs3) \<Rightarrow>
                     (let m = scale10 (of_nat (digits_val ds) + f) e
                      in Some ((if neg then - m else m), cs3)))))"

text \<open>A value that is not an array or an object, from its first character \<open>c\<close>.\<close>

definition parse_scalar :: "nat \<Rightarrow> jsstring \<Rightarrow> (json \<times> jsstring) option" where
  "parse_scalar c r =
     (if c = 34 then
        (case parse_chars r of
           None \<Rightarrow> None
         | Some (s, rest) \<Rightarrow> Some (JString s, rest))
      else if c = 116 then
        (case r of
           a # b # d # rest \<Rightarrow>
             if a = 114 \<and> b = 117 \<and> d = 101 then Some (JBool True, rest) else None
         | _ \<Rightarrow> None)
      else if c = 102 then
        (case r of
           a # b # d # e # rest \<Rightarrow>
             if a = 97 \<and> b = 108 \<and> d = 115 \<and> e = 101 then Some (JBool False, rest)
             else None
         | _ \<Rightarrow> None)
      else if c = 110 then
        (case r of
           a # b # d # rest \<Rightarrow>
             if a = 117 \<and> b = 108 \<and> d = 108 then Some (JNull, rest) else None
         | _ \<Rightarrow> None)
      else if c = 45 \<or> is_digit c then
        (case parse_number (c # r) of
           None \<Rightarrow> None
         | Some (x, rest) \<Rightarrow> Some (JNumber x, rest))
      else None)"

text \<open>
  After an element of an array or a member of an object: a comma, and more follow
  (\<open>True\<close>), or the closing bracket \<open>close\<close> (\<open>False\<close>).
\<close>

definition next_item :: "nat \<Rightarrow> jsstring \<Rightarrow> (bool \<times> jsstring) option" where
  "next_item close r =
     (case skip_ws r of
        [] \<Rightarrow> None
      | c # r' \<Rightarrow>
          if c = 44 then Some (True, r')
          else if c = close then Some (False, r')
          else None)"

text \<open>Whether the text, after white space, starts with the closing bracket.\<close>

definition closes :: "nat \<Rightarrow> jsstring \<Rightarrow> jsstring option" where
  "closes close r =
     (case skip_ws r of
        [] \<Rightarrow> None
      | c # r' \<Rightarrow> if c = close then Some r' else None)"

text \<open>The key of a member and the colon after it.\<close>

definition member_key :: "jsstring \<Rightarrow> (jsstring \<times> jsstring) option" where
  "member_key cs =
     (case skip_ws cs of
        [] \<Rightarrow> None
      | q # r \<Rightarrow>
          if q = 34 then
            (case parse_chars r of
               None \<Rightarrow> None
             | Some (k, r1) \<Rightarrow>
                 (case skip_ws r1 of
                    [] \<Rightarrow> None
                  | c # r2 \<Rightarrow> if c = 58 then Some (k, r2) else None))
          else None)"

definition with_result :: "('a \<Rightarrow> 'b) \<Rightarrow> ('a \<times> jsstring) option \<Rightarrow> ('b \<times> jsstring) option" where
  "with_result f r = (case r of None \<Rightarrow> None | Some (x, rest) \<Rightarrow> Some (f x, rest))"

text \<open>
  The recursive descent.  The first argument bounds the number of nested calls;
  \<open>JSON_parse\<close> starts it above what a text of that length can need.
\<close>

fun parse_value :: "nat \<Rightarrow> jsstring \<Rightarrow> (json \<times> jsstring) option"
  and parse_elements :: "nat \<Rightarrow> jsstring \<Rightarrow> (json list \<times> jsstring) option"
  and parse_members :: "nat \<Rightarrow> jsstring \<Rightarrow> ((jsstring \<times> json) list \<times> jsstring) option"
where
  "parse_value 0 cs = None"
| "parse_value (Suc n) cs =
     (case skip_ws cs of
        [] \<Rightarrow> None
      | c # r \<Rightarrow>
          if c = 123 then
            (case closes 125 r of
               Some r' \<Rightarrow> Some (JObject [], r')
             | None \<Rightarrow> with_result JObject (parse_members n r))
          else if c = 91 then
            (case closes 93 r of
               Some r' \<Rightarrow> Some (JArray [], r')
             | None \<Rightarrow> with_result JArray (parse_elements n r))
          else parse_scalar c r)"
| "parse_elements 0 cs = None"
| "parse_elements (Suc n) cs =
     (case parse_value n cs of
        None \<Rightarrow> None
      | Some (v, r) \<Rightarrow>
          (case next_item 93 r of
             None \<Rightarrow> None
           | Some (again, r') \<Rightarrow>
               if again then with_result (Cons v) (parse_elements n r')
               else Some ([v], r')))"
| "parse_members 0 cs = None"
| "parse_members (Suc n) cs =
     (case member_key cs of
        None \<Rightarrow> None
      | Some (k, r2) \<Rightarrow>
          (case parse_value n r2 of
             None \<Rightarrow> None
           | Some (v, r3) \<Rightarrow>
               (case next_item 125 r3 of
                  None \<Rightarrow> None
                | Some (again, r4) \<Rightarrow>
                    if again then with_result (Cons (k, v)) (parse_members n r4)
                    else Some ([(k, v)], r4))))"

text \<open>
  \<open>JSON.parse(text)\<close>: one value, and nothing but white space after it.  The bound
  given to the recursive descent is above what a text of this length can use
  (\<open>JSON_parse_any_bound\<close> below).
\<close>

definition JSON_parse :: "jsstring \<Rightarrow> json option" where
  "JSON_parse text =
     (case parse_value (2 * length text + 2) text of
        None \<Rightarrow> None
      | Some (v, rest) \<Rightarrow> if skip_ws rest = [] then Some v else None)"



section \<open>The token file (saveToken and loadToken of oauth-server.ts)\<close>


text \<open>
  The file at \<open>tokenStorePath\<close>: its text as \<open>readFile\<close> decodes it (\<open>None\<close> when there is
  no file), and whether reads and writes succeed.
\<close>

record tokenfile =
  content :: "jsstring option"
  readable :: bool
  writable :: bool


text \<open>
  \<open>loadToken\<close> returns whatever \<open>JSON.parse\<close> gives, and \<open>null\<close> when \<open>readFile\<close> or
  \<open>JSON.parse\<close> throws.
\<close>

definition loadToken :: "tokenfile \<Rightarrow> json" where
  "loadToken file =
     (if \<not> readable file then JNull
      else
        (case content file of
           None \<Rightarrow> JNull
         | Some data \<Rightarrow>
             (case JSON_parse data of
                None \<Rightarrow> JNull
              | Some v \<Rightarrow> v)))"


text \<open>
  Property access \<open>v.k\<close> on a parsed value: \<open>None\<close> is \<open>undefined\<close>.  When a key occurs
  twice in an object the later member wins.
\<close>

definition property :: "json \<Rightarrow> string \<Rightarrow> json option" where
  "property v k = (case v of JObject ms \<Rightarrow> map_of (rev ms) (js k) | _ \<Rightarrow> None)"

text \<open>Truthiness of a parsed value, as \<open>if (existing)\<close> tests it.\<close>

definition js_truthy :: "json \<Rightarrow> bool" where
  "js_truthy v =
     (case v of
        JNull \<Rightarrow> False
      | JBool b \<Rightarrow> b
      | JNumber x \<Rightarrow> x \<noteq> 0
      | JString s \<Rightarrow> s \<noteq> []
      | JArray vs \<Rightarrow> True
      | JObject ms \<Rightarrow> True)"

section \<open>Predicates and concrete inputs for the statements\<close>

text \<open>
  Inputs at which the theorems below are evaluated, and the conditions on replies and
  callbacks their statements use.
\<close>

definition sampleToken :: StoredToken where
  "sampleToken =
     \<lparr>accessToken = js ''at0'', refreshToken = js ''rt0'', expiresAt = 1000000,
      scope = js ''read''\<rparr>"

definition sampleResponse :: "jsstring option \<Rightarrow> TokenResponse" where
  "sampleResponse rt =
     \<lparr>access_token = js ''at1'', token_type = js ''bearer'', expires_in = 3600,
      refresh_token = rt, resp_scope = js ''read''\<rparr>"

definition sampleConfig :: OAuthConfig where
  "sampleConfig =
     \<lparr>clientId = js ''id'', clientSecret = js ''secret'',
      redirectUri = js ''http://localhost:48820/callback''\<rparr>"

definition sampleWorld ::
  "int \<Rightarrow> (nat \<times> (error + TokenResponse)) list \<Rightarrow> bool \<Rightarrow> world" where
  "sampleWorld now replies can_write =
     \<lparr>clock = now, net = replies, stored = Some sampleToken, disk_writable = can_write,
      inbound = [], rand = js ''k3j9x'', trace = []\<rparr>"

definition sampleManager :: TokenManager where
  "sampleManager = \<lparr>token = sampleToken, onTokenUpdate = Some persistListener\<rparr>"





definition goodRequest :: CallbackRequest where
  "goodRequest =
     \<lparr>pathname = js ''/callback'',
      searchParams = [(js ''state'', js ''k3j9x''), (js ''code'', js ''abc'')]\<rparr>"


definition expiredWorld :: "bool \<Rightarrow> world" where
  "expiredWorld can_write =
     (sampleWorld 2000000
        [(120, Inr (sampleResponse None)), (80, Inr (sampleResponse (Some (js ''rt1''))))]
        can_write)\<lparr>inbound := [(1000, goodRequest)]\<rparr>"

definition sampleAsync :: "int \<Rightarrow> async_state" where
  "sampleAsync now =
     \<lparr>manager = sampleManager, env = sampleWorld now [] True, in_flight = [], completed = []\<rparr>"

definition fileToken :: StoredToken where
  "fileToken =
     \<lparr>accessToken = js ''at0'', refreshToken = [114, 34, 92, 10, 55357, 56832, 56832, 233],
      expiresAt = 1762160400000, scope = js ''identity read''\<rparr>"

definition emptyFile :: tokenfile where
  "emptyFile = \<lparr>content = None, readable = True, writable = True\<rparr>"

text \<open>
  Two texts: one that is not JSON, and \<open>{"accessToken":"a"}\<close>, which is JSON and not a
  credential.
\<close>

definition garbageText :: jsstring where
  "garbageText = js ''{not json''"

definition wrongShapeText :: jsstring where
  "wrongShapeText =
     [123] @ QuoteJSONString (js ''accessToken'') @ [58] @ QuoteJSONString (js ''a'') @ [125]"

section \<open>The token endpoint and the credentials built from its replies\<close>

lemma truthy_simps [simp]: "truthy None = False" "truthy (Some s) = (s \<noteq> [])"
  by (simp_all add: truthy_def)

lemma str_simps [simp]: "str None = []" "str (Some s) = s"
  by (simp_all add: str_def)


section \<open>TokenManager.getToken\<close>

text \<open>
  C4.  When the held credential has at least the lead time (5 minutes) left, \<open>getToken\<close>
  returns its access token and changes neither the manager nor the world: no request is
  sent.  When less is left, it sends a refresh request with the held refresh token and
  waits for the reply; on a reply it replaces the held credential by the one built from
  the reply, calls the registered listener (if any) with it, and returns the new access
  token; on an error the error propagates, the credential is kept and the listener is not
  called.
\<close>

theorem getToken_lead_time:
  "(refreshBuffer = 300000) \<and>
   (refreshBuffer \<le> expiresAt (token tm) - clock w \<longrightarrow>
      getToken tm w = (Inr (accessToken (token tm)), tm, w)) \<and>
   (expiresAt (token tm) - clock w < refreshBuffer \<longrightarrow>
      (case post (RefreshGrant (refreshToken (token tm))) w of
         (Inl e, w1) \<Rightarrow> getToken tm w = (Inl e, tm, w1)
       | (Inr data, w1) \<Rightarrow>
           (let t = refreshedToken (refreshToken (token tm)) (clock w1) data in
            accessToken t = access_token data \<and>
            getToken tm w =
              (Inr (access_token data), tm\<lparr>token := t\<rparr>,
               (case onTokenUpdate tm of None \<Rightarrow> w1 | Some listener \<Rightarrow> listener t w1)))))"
  by (auto simp: getToken_def refresh_def refreshAccessToken_def refreshedToken_def Let_def
      refreshBuffer_def split: prod.splits sum.splits)

theorem getToken_lead_time_witness:
  "getToken sampleManager (sampleWorld 700000 [(120, Inr (sampleResponse None))] True)
     = (Inr (js ''at0''), sampleManager,
        sampleWorld 700000 [(120, Inr (sampleResponse None))] True) \<and>
   fst (getToken sampleManager (sampleWorld 700001 [(120, Inr (sampleResponse None))] True))
     = Inr (js ''at1'') \<and>
   trace (snd (snd (getToken sampleManager
                      (sampleWorld 700001 [(120, Inr (sampleResponse None))] True))))
     = [HttpPost (RefreshGrant (js ''rt0'')),
        WriteFile \<lparr>accessToken = js ''at1'', refreshToken = js ''rt0'',
                   expiresAt = 4300121, scope = js ''read''\<rparr>]"
  using getToken_lead_time
          [of sampleManager "sampleWorld 700000 [(120, Inr (sampleResponse None))] True"]
        getToken_lead_time
          [of sampleManager "sampleWorld 700001 [(120, Inr (sampleResponse None))] True"]
  by (simp add: sampleManager_def sampleToken_def sampleWorld_def sampleResponse_def
      post_def Let_def refreshedToken_def truthy_def persistListener_def saveToken_typed_def)

section \<open>Facts about the world each operation leaves\<close>

lemma js_simps: "js [] = []" "js (c # cs) = of_char c # js cs"
  by (simp_all add: js_def)

lemma emit_simps [simp]:
  "net (emit es w) = net w" "clock (emit es w) = clock w" "stored (emit es w) = stored w"
  "disk_writable (emit es w) = disk_writable w" "rand (emit es w) = rand w"
  "inbound (emit es w) = inbound w" "trace (emit es w) = trace w @ es"
  by (simp_all add: emit_def)





section \<open>Credentials from the token endpoint\<close>






section \<open>A code exchange without a refresh token\<close>








section \<open>Callbacks with invalid parameters\<close>







section \<open>authenticate\<close>






section \<open>A token file that cannot be written\<close>

text \<open>
  C2.  The stored credential has expired, the endpoint answers the refresh and then the
  code exchange, and every write of the token file is rejected.  \<open>authenticate\<close> drops the
  refreshed credential, logs "Refresh failed, starting new OAuth flow..." and starts the
  interactive flow; there the callback handler, after a successful exchange, answers 500
  and rejects with the storage error, so \<open>getTokenManager\<close> fails.  Only the listener of
  the lazy refresh logs the failure and lets \<open>getToken\<close> return the new access token.
\<close>

theorem save_failure_fails_startup:
  "fst (authenticate sampleConfig 48820 (expiredWorld False)) = Inl StorageError \<and>
   trace (snd (authenticate sampleConfig 48820 (expiredWorld False)))
     = [Log TokenExpiredRefreshing, HttpPost (RefreshGrant (js ''rt0'')),
        Log RefreshFailedStartingNewFlow,
        Listen 48820, ShowUrl (js ''k3j9x''), OpenBrowser (js ''k3j9x''),
        Log ExchangingCode,
        HttpPost (AuthorizationCode (js ''abc'') (js ''http://localhost:48820/callback'')),
        Log (TokenExchangeFailed StorageError), Respond 500 (ErrorPage StorageError),
        CloseServer] \<and>
   fst (getTokenManager sampleConfig 48820 (expiredWorld False)) = Inl StorageError \<and>
   fst (getToken sampleManager (sampleWorld 700001 [(120, Inr (sampleResponse None))] False))
     = Inr (js ''at1'') \<and>
   trace (snd (snd (getToken sampleManager
                      (sampleWorld 700001 [(120, Inr (sampleResponse None))] False))))
     = [HttpPost (RefreshGrant (js ''rt0'')), Log (FailedToPersistRefreshedToken StorageError)]"
  by (simp add: expiredWorld_def sampleWorld_def sampleToken_def sampleResponse_def
      sampleConfig_def sampleManager_def goodRequest_def
      authenticate_def getTokenManager_def loadToken_typed_def refreshAccessToken_def post_def
      saveToken_typed_def startOAuthFlow_def handleRequest_def searchParams_get_def
      exchangeCodeForToken_def getToken_def refresh_def persistListener_def refreshBuffer_def
      flowTimeout_def emit_def refreshedToken_def truthy_def Let_def js_simps)

section \<open>Concurrent callers of getToken\<close>

lemma async_run_Cons: "async_run s (e # es) = async_run (async_step s e) es"
  by (simp add: async_run_def)

lemma async_run_Nil: "async_run s [] = s"
  by (simp add: async_run_def)

lemma calls_near_expiry:
  "expiresAt (token (manager s)) - clock (env s) < refreshBuffer \<Longrightarrow>
     async_run s (replicate k CallGetToken) =
       s\<lparr>env := emit (replicate k (HttpPost (RefreshGrant (refreshToken (token (manager s))))))
                  (env s),
         in_flight := in_flight s @ replicate k (refreshToken (token (manager s)))\<rparr>"
proof (induction k arbitrary: s)
  case 0
  then show ?case by (simp add: async_run_Nil emit_def)
next
  case (Suc k)
  let ?rt = "refreshToken (token (manager s))"
  let ?s1 = "s\<lparr>env := emit [HttpPost (RefreshGrant ?rt)] (env s), in_flight := in_flight s @ [?rt]\<rparr>"
  have step: "async_step s CallGetToken = ?s1" using Suc.prems by (simp add: Let_def)
  have "expiresAt (token (manager ?s1)) - clock (env ?s1) < refreshBuffer"
    using Suc.prems by simp
  from Suc.IH [OF this]
  have "async_run ?s1 (replicate k CallGetToken) =
          ?s1\<lparr>env := emit (replicate k (HttpPost (RefreshGrant ?rt))) (env ?s1),
              in_flight := in_flight ?s1 @ replicate k ?rt\<rparr>"
    by simp
  moreover have "async_run s (replicate (Suc k) CallGetToken)
                   = async_run ?s1 (replicate k CallGetToken)"
    by (simp only: replicate_Suc async_run_Cons step)
  ultimately show ?case by (simp add: emit_def)
qed

lemma calls_when_fresh:
  "refreshBuffer \<le> expiresAt (token (manager s)) - clock (env s) \<Longrightarrow>
     async_run s (replicate k CallGetToken) =
       s\<lparr>completed := completed s @ replicate k (Inr (accessToken (token (manager s))))\<rparr>"
proof (induction k arbitrary: s)
  case 0
  then show ?case by (simp add: async_run_Nil)
next
  case (Suc k)
  let ?s1 = "s\<lparr>completed := completed s @ [Inr (accessToken (token (manager s)))]\<rparr>"
  have step: "async_step s CallGetToken = ?s1" using Suc.prems by (simp add: Let_def)
  have "refreshBuffer \<le> expiresAt (token (manager ?s1)) - clock (env ?s1)"
    using Suc.prems by simp
  from Suc.IH [OF this]
  have "async_run ?s1 (replicate k CallGetToken) =
          ?s1\<lparr>completed := completed ?s1 @ replicate k (Inr (accessToken (token (manager s))))\<rparr>"
    by simp
  moreover have "async_run s (replicate (Suc k) CallGetToken)
                   = async_run ?s1 (replicate k CallGetToken)"
    by (simp only: replicate_Suc async_run_Cons step)
  ultimately show ?case by simp
qed

text \<open>
  A single caller that waits \<open>d\<close> milliseconds for its reply is the event sequence call,
  wait, deliver: it ends as \<open>getToken\<close> does.
\<close>

lemma getToken_as_events:
  assumes "net w = (d, r) # rest"
    and "expiresAt (token tm) - clock w < refreshBuffer"
  shows "(let s = async_run \<lparr>manager = tm, env = w\<lparr>net := rest\<rparr>, in_flight = [], completed = []\<rparr>
                   [CallGetToken, Elapse d, Deliver 0 r]
          in (completed s, in_flight s, manager s, env s))
         = ([fst (getToken tm w)], [], fst (snd (getToken tm w)), snd (snd (getToken tm w)))"
  using assms
  by (cases r; cases w)
     (auto simp: async_run_def getToken_def refresh_def refreshAccessToken_def post_def Let_def emit_def
      split: option.splits)

text \<open>
  C1, as the code has it.  \<open>getToken\<close> keeps no record of a renewal in progress.  Every
  call that finds \<open>expiresAt - now < 5 minutes\<close> sends its own refresh request with the
  refresh token held at that moment: \<open>k\<close> calls made before any reply arrives put \<open>k\<close>
  more requests in flight.  Calls made while at least 5 minutes are left send none.
\<close>

theorem every_call_near_expiry_sends_a_request:
  "(expiresAt (token (manager s)) - clock (env s) < refreshBuffer \<longrightarrow>
      in_flight (async_run s (replicate k CallGetToken))
        = in_flight s @ replicate k (refreshToken (token (manager s))) \<and>
      trace (env (async_run s (replicate k CallGetToken)))
        = trace (env s) @ replicate k (HttpPost (RefreshGrant (refreshToken (token (manager s)))))) \<and>
   (refreshBuffer \<le> expiresAt (token (manager s)) - clock (env s) \<longrightarrow>
      in_flight (async_run s (replicate k CallGetToken)) = in_flight s \<and>
      trace (env (async_run s (replicate k CallGetToken))) = trace (env s))"
  by (simp add: calls_near_expiry calls_when_fresh)

theorem every_call_near_expiry_sends_a_request_witness:
  "in_flight (async_run (sampleAsync 700001) (replicate 3 CallGetToken))
     = [js ''rt0'', js ''rt0'', js ''rt0''] \<and>
   in_flight (async_run (sampleAsync 700000) (replicate 3 CallGetToken)) = []"
  using every_call_near_expiry_sends_a_request [of "sampleAsync 700001" 3]
        every_call_near_expiry_sends_a_request [of "sampleAsync 700000" 3]
  by (simp add: sampleAsync_def sampleManager_def sampleToken_def sampleWorld_def
      refreshBuffer_def numeral_3_eq_3)

text \<open>
  Two calls, one millisecond inside the lead time, before any reply: two refresh requests
  are in flight, both carrying \<open>rt0\<close>.
\<close>

theorem two_renewals_in_flight_counterexample:
  "length (in_flight (async_run (sampleAsync 700001) [CallGetToken, CallGetToken])) = 2 \<and>
   trace (env (async_run (sampleAsync 700001) [CallGetToken, CallGetToken]))
     = [HttpPost (RefreshGrant (js ''rt0'')), HttpPost (RefreshGrant (js ''rt0''))]"
  by (simp add: async_run_def sampleAsync_def sampleManager_def sampleToken_def sampleWorld_def
      refreshBuffer_def Let_def emit_def)

section \<open>Numbers and strings survive JSON text\<close>

declare digits.simps [simp del]
















lemma parse_chars_literal:
  "32 \<le> c \<Longrightarrow> c \<noteq> 34 \<Longrightarrow> c \<noteq> 92 \<Longrightarrow> parse_chars (c # rest) = prepend c (parse_chars rest)"
  by simp







lemma hex_digit_plain: "v < 16 \<Longrightarrow> \<not> is_surrogate (hex_digit v)"
  by (simp add: hex_digit_def is_surrogate_def)




section \<open>The text of a credential\<close>
















section \<open>Evaluating the parser on concrete texts\<close>

lemmas fuel_numeral =
  parse_value.simps(2) [where n = "pred_numeral k" for k, unfolded numeral_eq_Suc [symmetric]]
  parse_elements.simps(2) [where n = "pred_numeral k" for k, unfolded numeral_eq_Suc [symmetric]]
  parse_members.simps(2) [where n = "pred_numeral k" for k, unfolded numeral_eq_Suc [symmetric]]

lemmas json_eval =
  JSON_parse_def fuel_numeral skip_ws_def is_ws_def closes_def next_item_def member_key_def
  with_result_def parse_scalar_def parse_number_def parse_fraction_def parse_exponent_def
  scale10_def digits_val_def is_digit_def prepend_def unescape_def hex4_def hex_val_def
  QuoteJSONString_def quote_unit_def unicode_escape_def hex_digit_def
  is_surrogate_def is_high_surrogate_def is_low_surrogate_def js_simps Let_def

lemma stringify_fileToken:
  "JSON_stringify fileToken =
     js ''{'' @ [10] @ js ''  '' @ [34] @ js ''accessToken'' @ [34] @ js '': '' @ [34] @ js ''at0'' @ [34] @ js '','' @ [10] @
     js ''  '' @ [34] @ js ''refreshToken'' @ [34] @ js '': '' @ [34] @ js ''r'' @ [92, 34, 92, 92, 92, 110, 55357, 56832] @ [92] @ js ''ude00'' @ [233, 34] @ js '','' @ [10] @
     js ''  '' @ [34] @ js ''expiresAt'' @ [34] @ js '': 1762160400000,'' @ [10] @
     js ''  '' @ [34] @ js ''scope'' @ [34] @ js '': '' @ [34] @ js ''identity read'' @ [34, 10] @ js ''}''"
  by (simp add: JSON_stringify_def fileToken_def object_member_def Number_toString_def
      digits.simps json_eval)

lemma parse_wrongShapeText:
  "JSON_parse wrongShapeText = Some (JObject [(js ''accessToken'', JString (js ''a''))])"
  by (simp add: wrongShapeText_def json_eval)

lemma parse_garbage: "JSON_parse garbageText = None"
  by (simp add: garbageText_def json_eval)

lemma parse_misc:
  "JSON_parse (js ''[1, 2.5e1, -0.25, true, false, null, [], {}]'')
     = Some (JArray [JNumber 1, JNumber 25, JNumber (- (1 / 4)), JBool True, JBool False,
                     JNull, JArray [], JObject []])"
  by (simp add: json_eval)

section \<open>The bound on the recursive descent is never reached\<close>

lemma length_skip_ws: "length (skip_ws cs) \<le> length cs"
  by (simp add: skip_ws_def length_dropWhile_le)

lemma skip_ws_Cons_length: "skip_ws cs = c # r \<Longrightarrow> length r < length cs"
  using length_skip_ws [of cs] by simp

lemma prepend_Some: "prepend c x = Some (s, r) \<Longrightarrow> \<exists>s'. x = Some (s', r)"
  by (auto simp: prepend_def split: option.splits)

lemma parse_chars_length: "parse_chars cs = Some (s, r) \<Longrightarrow> length r < length cs"
proof (induction "length cs" arbitrary: cs s rule: less_induct)
  case less
  show ?case
  proof (cases cs)
    case Nil
    with less.prems show ?thesis by simp
  next
    case (Cons c cs')
    with less.prems consider "r = cs'"
      | y s' where "parse_chars y = Some (s', r)" "length y < length cs"
      by (auto split: if_splits list.splits option.splits dest!: prepend_Some)
    then show ?thesis
    proof cases
      case 1
      with Cons show ?thesis by simp
    next
      case 2
      from less.hyps [OF 2(2) 2(1)] 2(2) show ?thesis by simp
    qed
  qed
qed

lemma takeWhile_dropWhile_length:
  "length (dropWhile P xs) + length (takeWhile P xs) = length xs"
  by (metis add.commute length_append takeWhile_dropWhile_id)

lemma parse_fraction_length: "parse_fraction cs = Some (f, r) \<Longrightarrow> length r \<le> length cs"
  using length_dropWhile_le [of is_digit "tl cs"]
  by (auto simp: parse_fraction_def Let_def split: list.splits if_splits)

lemma parse_exponent_length: "parse_exponent cs = Some (e, r) \<Longrightarrow> length r \<le> length cs"
proof -
  assume a: "parse_exponent cs = Some (e, r)"
  have d: "length (dropWhile is_digit xs) \<le> length xs" for xs :: jsstring
    by (rule length_dropWhile_le)
  from a show ?thesis
    using d [of "tl cs"] d [of "tl (tl cs)"]
    by (auto simp: parse_exponent_def Let_def split: list.splits if_splits)
qed

lemma parse_number_length: "parse_number cs = Some (x, r) \<Longrightarrow> length r < length cs"
proof -
  assume a: "parse_number cs = Some (x, r)"
  define cs1 where "cs1 = (case cs of [] \<Rightarrow> cs | c # t \<Rightarrow> if c = 45 then t else cs)"
  have l1: "length cs1 \<le> length cs" by (auto simp: cs1_def split: list.splits)
  from a obtain f cs2 e where
    ne: "takeWhile is_digit cs1 \<noteq> []"
    and pf: "parse_fraction (dropWhile is_digit cs1) = Some (f, cs2)"
    and pe: "parse_exponent cs2 = Some (e, r)"
    by (auto simp: parse_number_def cs1_def Let_def simp del: takeWhile.simps dropWhile.simps
        split: list.splits if_splits option.splits)
  from ne have "length (dropWhile is_digit cs1) < length cs1"
    using takeWhile_dropWhile_length [of is_digit cs1] by (cases "takeWhile is_digit cs1") auto
  with parse_fraction_length [OF pf] parse_exponent_length [OF pe] l1 show ?thesis by simp
qed

lemma parse_scalar_length: "parse_scalar c r = Some (v, rest) \<Longrightarrow> length rest \<le> length r"
  by (auto simp: parse_scalar_def split: if_splits option.splits list.splits
      dest!: parse_chars_length parse_number_length)

lemma closes_length: "closes b r = Some r' \<Longrightarrow> length r' < length r"
  by (auto simp: closes_def split: list.splits if_splits dest!: skip_ws_Cons_length)

lemma next_item_length: "next_item b r = Some (a, r') \<Longrightarrow> length r' < length r"
  by (auto simp: next_item_def split: list.splits if_splits dest!: skip_ws_Cons_length)

lemma member_key_length: "member_key cs = Some (k, r) \<Longrightarrow> length r < length cs"
  by (auto simp: member_key_def split: list.splits if_splits option.splits
      dest!: skip_ws_Cons_length parse_chars_length)

lemma with_result_Some: "with_result f x = Some (y, r) \<Longrightarrow> \<exists>z. x = Some (z, r)"
  by (auto simp: with_result_def split: option.splits)

lemma parse_length:
  "(\<forall>cs v r. parse_value n cs = Some (v, r) \<longrightarrow> length r < length cs) \<and>
   (\<forall>cs vs r. parse_elements n cs = Some (vs, r) \<longrightarrow> length r < length cs) \<and>
   (\<forall>cs ms r. parse_members n cs = Some (ms, r) \<longrightarrow> length r < length cs)"
proof (induction n)
  case 0
  show ?case by simp
next
  case (Suc n)
  have V: "length r < length cs" if "parse_value n cs = Some (v, r)" for cs v r
    using Suc that by blast
  have E: "length r < length cs" if "parse_elements n cs = Some (vs, r)" for cs vs r
    using Suc that by blast
  have M: "length r < length cs" if "parse_members n cs = Some (ms, r)" for cs ms r
    using Suc that by blast
  have 1: "length r < length cs" if a: "parse_value (Suc n) cs = Some (v, r)" for cs v r
  proof -
    from a obtain c r0 where s: "skip_ws cs = c # r0"
      by (cases "skip_ws cs") auto
    have l0: "length r0 < length cs" using skip_ws_Cons_length [OF s] .
    from a s have "length r \<le> length r0"
      by (auto split: if_splits option.splits
          dest!: closes_length with_result_Some M E parse_scalar_length)
    with l0 show ?thesis by simp
  qed
  have 2: "length r < length cs" if a: "parse_elements (Suc n) cs = Some (vs, r)" for cs vs r
  proof -
    from a obtain v r1 again r2 where
      v: "parse_value n cs = Some (v, r1)" and ni: "next_item 93 r1 = Some (again, r2)"
      by (auto split: option.splits)
    from a v ni have "length r \<le> length r2"
      by (auto split: if_splits dest!: with_result_Some E)
    with V [OF v] next_item_length [OF ni] show ?thesis by simp
  qed
  have 3: "length r < length cs" if a: "parse_members (Suc n) cs = Some (ms, r)" for cs ms r
  proof -
    from a obtain k r2 v r3 again r4 where
      mk: "member_key cs = Some (k, r2)" and v: "parse_value n r2 = Some (v, r3)"
      and ni: "next_item 125 r3 = Some (again, r4)"
      by (auto split: option.splits)
    from a mk v ni have "length r \<le> length r4"
      by (auto split: if_splits dest!: with_result_Some M)
    with member_key_length [OF mk] V [OF v] next_item_length [OF ni] show ?thesis by simp
  qed
  from 1 2 3 show ?case by blast
qed

lemma parse_value_length: "parse_value n cs = Some (v, r) \<Longrightarrow> length r < length cs"
  using parse_length [of n] by blast

lemma fuel_independent:
  "(\<forall>cs m. 2 * length cs < n \<longrightarrow> 2 * length cs < m \<longrightarrow>
      parse_value n cs = parse_value m cs) \<and>
   (\<forall>cs m. 2 * length cs + 1 < n \<longrightarrow> 2 * length cs + 1 < m \<longrightarrow>
      parse_elements n cs = parse_elements m cs) \<and>
   (\<forall>cs m. 2 * length cs + 1 < n \<longrightarrow> 2 * length cs + 1 < m \<longrightarrow>
      parse_members n cs = parse_members m cs)"
proof (induction n)
  case 0
  show ?case by simp
next
  case (Suc n)
  have V: "parse_value n cs = parse_value m cs"
    if "2 * length cs < n" "2 * length cs < m" for cs m
    using Suc that by blast
  have E: "parse_elements n cs = parse_elements m cs"
    if "2 * length cs + 1 < n" "2 * length cs + 1 < m" for cs m
    using Suc that by blast
  have M: "parse_members n cs = parse_members m cs"
    if "2 * length cs + 1 < n" "2 * length cs + 1 < m" for cs m
    using Suc that by blast
  have 1: "parse_value (Suc n) cs = parse_value (Suc m) cs"
    if b: "2 * length cs < Suc n" "2 * length cs < Suc m" for cs m
  proof (cases "skip_ws cs")
    case Nil
    then show ?thesis by simp
  next
    case (Cons c r0)
    from skip_ws_Cons_length [OF Cons] b
    have "2 * length r0 + 1 < n" "2 * length r0 + 1 < m" by simp_all
    from E [OF this] M [OF this] show ?thesis by (simp add: Cons split: option.splits)
  qed
  have 2: "parse_elements (Suc n) cs = parse_elements (Suc m) cs"
    if b: "2 * length cs + 1 < Suc n" "2 * length cs + 1 < Suc m" for cs m
  proof -
    from b have "2 * length cs < n" "2 * length cs < m" by simp_all
    from V [OF this] have v: "parse_value n cs = parse_value m cs" .
    show ?thesis
    proof (cases "parse_value m cs")
      case None
      with v show ?thesis by simp
    next
      case (Some p)
      obtain x r1 where p: "p = (x, r1)" by (cases p)
      from parse_value_length [of m cs x r1] Some p have l1: "length r1 < length cs" by simp
      show ?thesis
      proof (cases "next_item 93 r1")
        case None
        with v Some p show ?thesis by simp
      next
        case ni: (Some q)
        obtain again r2 where q: "q = (again, r2)" by (cases q)
        from next_item_length [of 93 r1 again r2] ni q have "length r2 < length r1" by simp
        with l1 b have "2 * length r2 + 1 < n" "2 * length r2 + 1 < m" by simp_all
        from E [OF this] v Some p ni q show ?thesis by simp
      qed
    qed
  qed
  have 3: "parse_members (Suc n) cs = parse_members (Suc m) cs"
    if b: "2 * length cs + 1 < Suc n" "2 * length cs + 1 < Suc m" for cs m
  proof (cases "member_key cs")
    case None
    then show ?thesis by simp
  next
    case mk: (Some kr)
    obtain k r2 where kr: "kr = (k, r2)" by (cases kr)
    from member_key_length [of cs k r2] mk kr have l2: "length r2 < length cs" by simp
    with b have "2 * length r2 < n" "2 * length r2 < m" by simp_all
    from V [OF this] have v: "parse_value n r2 = parse_value m r2" .
    show ?thesis
    proof (cases "parse_value m r2")
      case None
      with v mk kr show ?thesis by simp
    next
      case (Some p)
      obtain x r3 where p: "p = (x, r3)" by (cases p)
      from parse_value_length [of m r2 x r3] Some p have l3: "length r3 < length r2" by simp
      show ?thesis
      proof (cases "next_item 125 r3")
        case None
        with v mk kr Some p show ?thesis by simp
      next
        case ni: (Some q)
        obtain again r4 where q: "q = (again, r4)" by (cases q)
        from next_item_length [of 125 r3 again r4] ni q have "length r4 < length r3" by simp
        with l2 l3 b have "2 * length r4 + 1 < n" "2 * length r4 + 1 < m" by simp_all
        from M [OF this] v mk kr Some p ni q show ?thesis by simp
      qed
    qed
  qed
  show ?case
  proof (intro conjI allI impI)
    fix cs :: jsstring and m
    assume "2 * length cs < Suc n" "2 * length cs < m"
    then show "parse_value (Suc n) cs = parse_value m cs"
      using 1 [of cs "m - 1"] by (cases m) simp_all
  next
    fix cs :: jsstring and m
    assume "2 * length cs + 1 < Suc n" "2 * length cs + 1 < m"
    then show "parse_elements (Suc n) cs = parse_elements m cs"
      using 2 [of cs "m - 1"] by (cases m) simp_all
  next
    fix cs :: jsstring and m
    assume "2 * length cs + 1 < Suc n" "2 * length cs + 1 < m"
    then show "parse_members (Suc n) cs = parse_members m cs"
      using 3 [of cs "m - 1"] by (cases m) simp_all
  qed
qed

text \<open>
  The bound \<open>JSON_parse\<close> gives the recursive descent is never the reason for a
  \<open>None\<close>: every larger bound gives the same result.
\<close>

lemma JSON_parse_any_bound:
  "2 * length text + 2 \<le> n \<Longrightarrow>
     JSON_parse text =
       (case parse_value n text of
          None \<Rightarrow> None
        | Some (v, rest) \<Rightarrow> if skip_ws rest = [] then Some v else None)"
proof -
  assume "2 * length text + 2 \<le> n"
  then have "parse_value (2 * length text + 2) text = parse_value n text"
    using fuel_independent [of "2 * length text + 2"] by simp
  then show ?thesis by (simp add: JSON_parse_def)
qed

section \<open>saveToken and loadToken\<close>



text \<open>
  C10.  \<open>loadToken\<close> always returns a value: \<open>null\<close> when the file cannot be read or does
  not exist and when its text is not JSON, and otherwise the value \<open>JSON.parse\<close> gives,
  whatever its shape.
\<close>

theorem loadToken_total_unvalidated:
  "(\<not> readable file \<or> content file = None \<longrightarrow> loadToken file = JNull) \<and>
   (readable file \<and> content file = Some data \<longrightarrow>
      loadToken file = (case JSON_parse data of None \<Rightarrow> JNull | Some v \<Rightarrow> v))"
  by (auto simp: loadToken_def)

theorem loadToken_total_unvalidated_witness:
  "loadToken emptyFile = JNull \<and>
   loadToken (emptyFile\<lparr>content := Some wrongShapeText, readable := False\<rparr>) = JNull \<and>
   loadToken (emptyFile\<lparr>content := Some garbageText\<rparr>) = JNull \<and>
   loadToken (emptyFile\<lparr>content := Some wrongShapeText\<rparr>)
     = JObject [(js ''accessToken'', JString (js ''a''))] \<and>
   js_truthy (loadToken (emptyFile\<lparr>content := Some wrongShapeText\<rparr>)) \<and>
   property (loadToken (emptyFile\<lparr>content := Some wrongShapeText\<rparr>)) ''refreshToken'' = None \<and>
   property (loadToken (emptyFile\<lparr>content := Some wrongShapeText\<rparr>)) ''expiresAt'' = None"
  using loadToken_total_unvalidated [of emptyFile "[]"]
        loadToken_total_unvalidated
          [of "emptyFile\<lparr>content := Some wrongShapeText, readable := False\<rparr>" wrongShapeText]
        loadToken_total_unvalidated
          [of "emptyFile\<lparr>content := Some garbageText\<rparr>" garbageText]
        loadToken_total_unvalidated
          [of "emptyFile\<lparr>content := Some wrongShapeText\<rparr>" wrongShapeText]
  by (simp add: emptyFile_def parse_wrongShapeText parse_garbage property_def js_truthy_def
      js_simps)

end
